theory Spec2Isabelle
  imports Complex_Main
begin

section \<open>The risk-scoring pipeline of \<^verbatim>\<open>risk_scoring.py\<close>\<close>

text \<open>
  The development embeds the class \<^verbatim>\<open>RiskScorer\<close>: the metric extraction
  \<^verbatim>\<open>calculate_basic_metrics\<close> and the scoring \<^verbatim>\<open>compute_risk_score\<close>.
  Console output is not modelled. Python's numbers are modelled exactly: \<^verbatim>\<open>int\<close> as
  \<^typ>\<open>int\<close> and \<^verbatim>\<open>float\<close> as \<^typ>\<open>real\<close>, so that every statement below is
  about the arithmetic the code writes down, without the rounding of binary floating
  point.
\<close>

subsection \<open>Library functions used by the code\<close>

text \<open>
  \<^verbatim>\<open>np.mean(xs)\<close> is the sum divided by the number of elements. The code calls it only
  on lists of at least two elements.
\<close>

definition np_mean :: "real list \<Rightarrow> real" where
  "np_mean xs = sum_list xs / real (length xs)"

text \<open>
  \<^verbatim>\<open>np.std(xs)\<close> with its default \<^verbatim>\<open>ddof=0\<close> is
  \<^verbatim>\<open>sqrt(mean(abs(x - x.mean())**2))\<close>.
\<close>

definition np_std :: "real list \<Rightarrow> real" where
  "np_std xs = sqrt (np_mean (map (\<lambda>x. \<bar>x - np_mean xs\<bar> ^ 2) xs))"

text \<open>
  Division of two floats. A zero divisor is an outcome of its own (\<open>Inl\<close>), so that a
  division the code does not guard shows in the result.
\<close>

datatype py_error = ZeroDivisionError

definition py_div :: "real \<Rightarrow> real \<Rightarrow> py_error + real" where
  "py_div a b = (if b = 0 then Inl ZeroDivisionError else Inr (a / b))"

text \<open>
  \<^verbatim>\<open>round(x, ndigits)\<close>: the nearest multiple of \<open>10 ^ -ndigits\<close>, a tie going to
  the even one.
\<close>

definition py_round :: "real \<Rightarrow> nat \<Rightarrow> real" where
  "py_round x ndigits =
     (let s = 10 ^ ndigits;
          y = x * s;
          f = \<lfloor>y\<rfloor>;
          d = y - of_int f
      in of_int (if d < 1 / 2 then f
                 else if 1 / 2 < d then f + 1
                 else if even f then f else f + 1) / s)"

subsection \<open>Data\<close>

text \<open>
  The dictionary \<^verbatim>\<open>self.risk_weights\<close> has four fixed keys; the scorer object holds
  nothing else.
\<close>

record risk_weights_dict =
  volume_volatility :: real
  liquidity_depth :: real
  concentration_risk :: real
  time_decay :: real

record risk_scorer =
  risk_weights :: risk_weights_dict

definition RiskScorer :: risk_scorer where
  "RiskScorer =
     \<lparr>risk_weights =
        \<lparr>volume_volatility = 35 / 100,
         liquidity_depth = 30 / 100,
         concentration_risk = 25 / 100,
         time_decay = 10 / 100\<rparr>\<rparr>"

text \<open>A swap record; \<^verbatim>\<open>eth_amount\<close> is the only field the scorer reads.\<close>

record swap =
  eth_amount :: real

text \<open>
  The argument \<^verbatim>\<open>swap_data\<close> is \<^verbatim>\<open>None\<close> or a dictionary loaded from JSON, given by
  its items; only the key \<^verbatim>\<open>processed_events\<close> is read.
\<close>

type_synonym swap_data = "(string \<times> swap list) list option"

text \<open>The dictionary \<^verbatim>\<open>metrics\<close> built by \<^verbatim>\<open>calculate_basic_metrics\<close>.\<close>

record metrics =
  total_volume_eth :: real
  avg_volume_eth :: real
  volume_std_eth :: real
  volume_cv :: real
  swap_count :: int
  time_range_minutes :: int
  volume_per_minute :: real

text \<open>
  What \<^verbatim>\<open>compute_risk_score\<close> can be given: \<^verbatim>\<open>None\<close>, the empty dictionary (both
  false in a condition) or a populated metrics dictionary.
\<close>

datatype metrics_arg = NoneMetrics | EmptyMetrics | Metrics metrics

fun falsy :: "metrics_arg \<Rightarrow> bool" where
  "falsy NoneMetrics = True"
| "falsy EmptyMetrics = True"
| "falsy (Metrics m) = False"

datatype color = Green | Yellow | Red

record components_dict =
  volatility_contrib :: real
  liquidity_contrib :: real
  concentration_contrib :: real

record normalized_dict =
  volatility :: real
  liquidity :: real
  concentration :: real

record assessment =
  risk_score :: real
  risk_level :: string
  color :: color
  timestamp :: string
  components :: components_dict
  normalized_metrics :: normalized_dict

text \<open>
  The value returned by \<^verbatim>\<open>compute_risk_score\<close>: the dictionary
  \<^verbatim>\<open>{"error": msg}\<close> or the assessment dictionary.
\<close>

datatype score_result = Error string | Assessment assessment

subsection \<open>\<^verbatim>\<open>calculate_basic_metrics\<close>\<close>

definition calculate_basic_metrics :: "swap_data \<Rightarrow> py_error + metrics option" where
  "calculate_basic_metrics swap_data =
     (case swap_data of
        None \<Rightarrow> Inr None
      | Some d \<Rightarrow>
          (if d = [] then Inr None
           else
             (case map_of d ''processed_events'' of
                None \<Rightarrow> Inr None
              | Some swaps \<Rightarrow>
                  (if length swaps < 2 then Inr None
                   else
                     (let eth_amounts = map eth_amount swaps;
                          total = sum_list eth_amounts;
                          avg = np_mean eth_amounts;
                          std = (if length eth_amounts > 1 then np_std eth_amounts else 0);
                          minutes = (5 :: int)
                      in
                        (case (if np_mean eth_amounts > 0
                               then py_div (np_std eth_amounts) (np_mean eth_amounts)
                               else Inr 0) of
                           Inl e \<Rightarrow> Inl e
                         | Inr cv \<Rightarrow>
                             (case py_div total (real_of_int minutes) of
                                Inl e \<Rightarrow> Inl e
                              | Inr vpm \<Rightarrow>
                                  Inr (Some \<lparr>total_volume_eth = total,
                                             avg_volume_eth = avg,
                                             volume_std_eth = std,
                                             volume_cv = cv,
                                             swap_count = int (length swaps),
                                             time_range_minutes = minutes,
                                             volume_per_minute = vpm\<rparr>))))))))"

subsection \<open>\<^verbatim>\<open>compute_risk_score\<close>\<close>

text \<open>The local variables of the function, in the order the code computes them.\<close>

definition vol_norm :: "metrics \<Rightarrow> real" where
  "vol_norm m = min (volume_cv m * 10) 1"

definition liquidity_norm :: "metrics \<Rightarrow> real" where
  "liquidity_norm m = 1 - min (volume_per_minute m / 100) 1"

definition concentration_norm :: "metrics \<Rightarrow> real" where
  "concentration_norm m = 1 - min (real_of_int (swap_count m) / 10) 1"

definition normalized :: "metrics \<Rightarrow> normalized_dict" where
  "normalized m =
     \<lparr>volatility = vol_norm m,
      liquidity = liquidity_norm m,
      concentration = concentration_norm m\<rparr>"

definition weighted_sum :: "risk_scorer \<Rightarrow> metrics \<Rightarrow> real" where
  "weighted_sum self m =
     0 + volatility (normalized m) * volume_volatility (risk_weights self)
       + liquidity (normalized m) * liquidity_depth (risk_weights self)
       + concentration (normalized m) * concentration_risk (risk_weights self)"

definition final_score :: "risk_scorer \<Rightarrow> metrics \<Rightarrow> real" where
  "final_score self m = weighted_sum self m * 100"

definition categorize :: "real \<Rightarrow> string \<times> color" where
  "categorize score =
     (if score < 30 then (''LOW'', Green)
      else if score < 70 then (''MEDIUM'', Yellow)
      else (''HIGH'', Red))"

text \<open>
  The time stamp \<^verbatim>\<open>datetime.now().isoformat()\<close> is read from the environment; it is the
  parameter \<open>now\<close>.
\<close>

definition compute_risk_score :: "risk_scorer \<Rightarrow> string \<Rightarrow> metrics_arg \<Rightarrow> score_result" where
  "compute_risk_score self now arg =
     (case arg of
        NoneMetrics \<Rightarrow> Error ''No metrics available''
      | EmptyMetrics \<Rightarrow> Error ''No metrics available''
      | Metrics m \<Rightarrow>
          let n = normalized m;
              w = risk_weights self;
              score = final_score self m;
              (level, col) = categorize score
          in Assessment
               \<lparr>risk_score = py_round score 2,
                risk_level = level,
                color = col,
                timestamp = now,
                components =
                  \<lparr>volatility_contrib = py_round (volatility n * volume_volatility w * 100) 2,
                   liquidity_contrib = py_round (liquidity n * liquidity_depth w * 100) 2,
                   concentration_contrib =
                     py_round (concentration n * concentration_risk w * 100) 2\<rparr>,
                normalized_metrics =
                  \<lparr>volatility = py_round (volatility n) 3,
                   liquidity = py_round (liquidity n) 3,
                   concentration = py_round (concentration n) 3\<rparr>\<rparr>)"

subsection \<open>Reference definitions and example inputs\<close>

text \<open>
  The population standard deviation in the words of the specification: the square root of
  the mean squared deviation from the mean, the divisor being the number of values (not
  that number less one).
\<close>

definition spec_population_std :: "real list \<Rightarrow> real" where
  "spec_population_std xs =
     sqrt ((\<Sum>x\<leftarrow>xs. (x - sum_list xs / real (length xs)) ^ 2) / real (length xs))"

text \<open>The swap data whose processed events carry the given amounts.\<close>

definition example_swaps :: "real list \<Rightarrow> swap_data" where
  "example_swaps amounts =
     Some [(''processed_events'', map (\<lambda>a. \<lparr>eth_amount = a\<rparr>) amounts)]"

text \<open>Metrics at which every normalized sub-score is 1.\<close>

definition saturated_metrics :: metrics where
  "saturated_metrics =
     \<lparr>total_volume_eth = 0, avg_volume_eth = 0, volume_std_eth = 0, volume_cv = 1 / 10,
      swap_count = 0, time_range_minutes = 5, volume_per_minute = 0\<rparr>"

text \<open>Metrics with a negative coefficient of variation.\<close>

definition negative_cv_metrics :: metrics where
  "negative_cv_metrics =
     \<lparr>total_volume_eth = 10, avg_volume_eth = 5, volume_std_eth = 0, volume_cv = - 1,
      swap_count = 2, time_range_minutes = 5, volume_per_minute = 2\<rparr>"

text \<open>Metrics far outside the calibration range.\<close>

definition extreme_metrics :: metrics where
  "extreme_metrics =
     \<lparr>total_volume_eth = 5000000, avg_volume_eth = 5, volume_std_eth = 5000,
      volume_cv = 1000, swap_count = 1000000, time_range_minutes = 5,
      volume_per_minute = 1000000\<rparr>"

text \<open>Ten swaps of 0.005 ETH; four empty swaps and four of 0.0125 ETH.\<close>

definition low_edge_amounts :: "real list" where
  "low_edge_amounts =
     [1 / 200, 1 / 200, 1 / 200, 1 / 200, 1 / 200, 1 / 200, 1 / 200, 1 / 200, 1 / 200, 1 / 200]"

definition medium_edge_amounts :: "real list" where
  "medium_edge_amounts = [0, 0, 0, 0, 1 / 80, 1 / 80, 1 / 80, 1 / 80]"

section \<open>Properties\<close>

subsection \<open>Auxiliary facts\<close>

lemma np_std_population: "np_std xs = spec_population_std xs"
  unfolding np_std_def spec_population_std_def np_mean_def power2_abs by simp

lemma np_std_nonneg: "0 \<le> np_std xs"
proof -
  have "0 \<le> sum_list (map (\<lambda>x. \<bar>x - np_mean xs\<bar> ^ 2) xs)"
    by (rule sum_list_nonneg) auto
  then show ?thesis
    by (simp add: np_std_def np_mean_def)
qed

lemma calculate_basic_metrics_Some:
  assumes "map_of d ''processed_events'' = Some swaps" and "2 \<le> length swaps"
  shows "calculate_basic_metrics (Some d) =
           Inr (Some \<lparr>total_volume_eth = sum_list (map eth_amount swaps),
                      avg_volume_eth = np_mean (map eth_amount swaps),
                      volume_std_eth = np_std (map eth_amount swaps),
                      volume_cv = (if 0 < np_mean (map eth_amount swaps)
                                   then np_std (map eth_amount swaps) / np_mean (map eth_amount swaps)
                                   else 0),
                      swap_count = int (length swaps),
                      time_range_minutes = 5,
                      volume_per_minute = sum_list (map eth_amount swaps) / 5\<rparr>)"
proof -
  from assms(1) have "d \<noteq> []" by auto
  with assms show ?thesis
    by (simp add: calculate_basic_metrics_def py_div_def Let_def)
qed

lemma calculate_basic_metrics_cases:
  "calculate_basic_metrics sd = Inr None \<or>
   (\<exists>d swaps. sd = Some d \<and> map_of d ''processed_events'' = Some swaps \<and> 2 \<le> length swaps)"
  by (cases sd) (auto simp: calculate_basic_metrics_def split: option.splits)

lemma calculate_example_swaps:
  assumes "2 \<le> length amounts"
  shows "calculate_basic_metrics (example_swaps amounts) =
           Inr (Some \<lparr>total_volume_eth = sum_list amounts,
                      avg_volume_eth = np_mean amounts,
                      volume_std_eth = np_std amounts,
                      volume_cv = (if 0 < np_mean amounts then np_std amounts / np_mean amounts
                                   else 0),
                      swap_count = int (length amounts),
                      time_range_minutes = 5,
                      volume_per_minute = sum_list amounts / 5\<rparr>)"
proof -
  have "map eth_amount (map (\<lambda>a. \<lparr>eth_amount = a\<rparr>) amounts) = amounts"
    by (induction amounts) simp_all
  with calculate_basic_metrics_Some
         [of "[(''processed_events'', map (\<lambda>a. \<lparr>eth_amount = a\<rparr>) amounts)]"
             "map (\<lambda>a. \<lparr>eth_amount = a\<rparr>) amounts"] assms
  show ?thesis by (simp add: example_swaps_def)
qed

lemma py_round_unit:
  assumes "0 \<le> x" and "x \<le> 1"
  shows "0 \<le> py_round x n \<and> py_round x n \<le> 1"
proof -
  define s :: real where "s = 10 ^ n"
  define f where "f = \<lfloor>x * s\<rfloor>"
  define k where "k = (if x * s - of_int f < 1 / 2 then f
                 else if 1 / 2 < x * s - of_int f then f + 1
                 else if even f then f else f + 1)"
  have s: "0 < s" by (simp add: s_def)
  have r: "py_round x n = of_int k / s"
    by (simp add: py_round_def Let_def s_def f_def k_def)
  have "0 \<le> x * s" using assms s by simp
  then have f0: "0 \<le> f" by (simp add: f_def)
  have xs: "x * s \<le> s" using assms s by (simp add: mult_left_le_one_le)
  have si: "s = of_int (10 ^ n)" by (simp add: s_def)
  have fs: "of_int f \<le> x * s" by (simp add: f_def)
  have k0: "0 \<le> k" using f0 by (simp add: k_def)
  have k1: "real_of_int k \<le> s"
  proof (cases "x * s - of_int f < 1 / 2")
    case True
    then have "k = f" by (simp add: k_def)
    then show ?thesis using fs xs by simp
  next
    case False
    then have "k \<le> f + 1" by (simp add: k_def)
    moreover have "of_int f < s" using False fs xs by linarith
    then have "f < 10 ^ n" unfolding si by (simp only: of_int_less_iff)
    ultimately have "k \<le> 10 ^ n" by simp
    then have "real_of_int k \<le> of_int (10 ^ n)" by (simp only: of_int_le_iff)
    then show ?thesis by (simp add: s_def)
  qed
  show ?thesis using k0 k1 s by (simp add: r)
qed


lemma py_round_values:
  "py_round (29997 / 1000) 2 = 30"
  "py_round (69997 / 1000) 2 = 70"
  by (simp_all add: py_round_def Let_def)

lemma compute_risk_score_Metrics:
  "compute_risk_score self now (Metrics m) =
     Assessment
       \<lparr>risk_score = py_round (final_score self m) 2,
        risk_level = fst (categorize (final_score self m)),
        color = snd (categorize (final_score self m)),
        timestamp = now,
        components =
          \<lparr>volatility_contrib =
             py_round (vol_norm m * volume_volatility (risk_weights self) * 100) 2,
           liquidity_contrib =
             py_round (liquidity_norm m * liquidity_depth (risk_weights self) * 100) 2,
           concentration_contrib =
             py_round (concentration_norm m * concentration_risk (risk_weights self) * 100) 2\<rparr>,
        normalized_metrics =
          \<lparr>volatility = py_round (vol_norm m) 3,
           liquidity = py_round (liquidity_norm m) 3,
           concentration = py_round (concentration_norm m) 3\<rparr>\<rparr>"
  by (simp add: compute_risk_score_def normalized_def Let_def split: prod.splits)

lemma final_score_eq:
  "final_score self m =
     100 * (vol_norm m * volume_volatility (risk_weights self)
            + liquidity_norm m * liquidity_depth (risk_weights self)
            + concentration_norm m * concentration_risk (risk_weights self))"
  by (simp add: final_score_def weighted_sum_def normalized_def)

lemma final_score_RiskScorer:
  "final_score RiskScorer m =
     35 * vol_norm m + 30 * liquidity_norm m + 25 * concentration_norm m"
  by (simp add: final_score_eq RiskScorer_def)

lemma vol_norm_range: "0 \<le> volume_cv m \<Longrightarrow> 0 \<le> vol_norm m \<and> vol_norm m \<le> 1"
  by (simp add: vol_norm_def)

lemma liquidity_norm_range:
  "0 \<le> volume_per_minute m \<Longrightarrow> 0 \<le> liquidity_norm m \<and> liquidity_norm m \<le> 1"
  by (simp add: liquidity_norm_def)

lemma concentration_norm_range:
  "0 \<le> swap_count m \<Longrightarrow> 0 \<le> concentration_norm m \<and> concentration_norm m \<le> 1"
  by (simp add: concentration_norm_def)

lemma categorize_level:
  "(fst (categorize s) = ''LOW'') = (s < 30)"
  "(fst (categorize s) = ''MEDIUM'') = (30 \<le> s \<and> s < 70)"
  "(fst (categorize s) = ''HIGH'') = (70 \<le> s)"
  by (auto simp: categorize_def)

lemma sqrt_example: "sqrt (1 / 25600) = 1 / 160"
  by (rule real_sqrt_unique) (simp_all add: power2_eq_square)

lemma np_examples:
  "np_mean [10, 10, 10] = 10"
  "np_std [10, 10, 10] = 0"
  "np_mean [1, 3] = 2"
  "np_std [1, 3] = 1"
  "np_mean [0, 0] = 0"
  "np_mean low_edge_amounts = 1 / 200"
  "np_std low_edge_amounts = 0"
  "np_mean medium_edge_amounts = 1 / 160"
  "np_std medium_edge_amounts = 1 / 160"
  by (simp_all add: np_mean_def np_std_def low_edge_amounts_def medium_edge_amounts_def
        power2_eq_square sqrt_example)

subsection \<open>The weighted sum\<close>

text \<open>
  Claim C1, as the specification states it, fails on the code. The weights that
  \<^verbatim>\<open>compute_risk_score\<close> applies total 0.90, not 1.0: at metrics where every normalized
  sub-score is 1 the score is 90, not 100. And \<^verbatim>\<open>compute_risk_score\<close> accepts metrics
  with a negative coefficient of variation, for which the volatility sub-score is -10,
  outside [0,1].
\<close>

theorem C1_weights_counterexample:
  "volume_volatility (risk_weights RiskScorer) + liquidity_depth (risk_weights RiskScorer)
     + concentration_risk (risk_weights RiskScorer) \<noteq> 1
   \<and> vol_norm saturated_metrics = 1
   \<and> liquidity_norm saturated_metrics = 1
   \<and> concentration_norm saturated_metrics = 1
   \<and> final_score RiskScorer saturated_metrics = 90
   \<and> final_score RiskScorer saturated_metrics \<noteq> 100 * 1
   \<and> \<not> falsy (Metrics negative_cv_metrics)
   \<and> vol_norm negative_cv_metrics = - 10"
proof -
  have n: "vol_norm saturated_metrics = 1" "liquidity_norm saturated_metrics = 1"
    "concentration_norm saturated_metrics = 1" "vol_norm negative_cv_metrics = - 10"
    by (simp_all add: vol_norm_def liquidity_norm_def concentration_norm_def
          saturated_metrics_def negative_cv_metrics_def)
  have s: "final_score RiskScorer saturated_metrics = 90"
    by (simp add: final_score_RiskScorer n)
  have w: "volume_volatility (risk_weights RiskScorer) + liquidity_depth (risk_weights RiskScorer)
             + concentration_risk (risk_weights RiskScorer) \<noteq> 1"
    by (simp add: RiskScorer_def)
  show ?thesis using n s w by simp
qed

text \<open>
  Claim C1, amended: for every metrics value with non-negative \<^verbatim>\<open>volume_cv\<close>,
  \<^verbatim>\<open>volume_per_minute\<close> and \<^verbatim>\<open>swap_count\<close>, \<^verbatim>\<open>compute_risk_score\<close> returns an
  assessment whose \<^verbatim>\<open>risk_score\<close> is the unrounded score rounded to 2 decimals; the
  unrounded score equals 100 times the sum of normalized sub-score times weight over the
  three applied factors (volatility, liquidity, concentration); the three applied weights
  total 0.90, the weight \<^verbatim>\<open>time_decay\<close> that completes the table to 1.0 having no effect
  on the score; and each normalized sub-score lies in [0,1].
\<close>

theorem C1_score_is_weighted_sum:
  assumes "0 \<le> volume_cv m" and "0 \<le> volume_per_minute m" and "0 \<le> swap_count m"
  shows "\<exists>r. compute_risk_score RiskScorer now (Metrics m) = Assessment r
           \<and> risk_score r = py_round (final_score RiskScorer m) 2
           \<and> final_score RiskScorer m =
               100 * (vol_norm m * volume_volatility (risk_weights RiskScorer)
                      + liquidity_norm m * liquidity_depth (risk_weights RiskScorer)
                      + concentration_norm m * concentration_risk (risk_weights RiskScorer))
           \<and> volume_volatility (risk_weights RiskScorer)
               + liquidity_depth (risk_weights RiskScorer)
               + concentration_risk (risk_weights RiskScorer) = 9 / 10
           \<and> volume_volatility (risk_weights RiskScorer)
               + liquidity_depth (risk_weights RiskScorer)
               + concentration_risk (risk_weights RiskScorer)
               + time_decay (risk_weights RiskScorer) = 1
           \<and> final_score
                (RiskScorer\<lparr>risk_weights := (risk_weights RiskScorer)\<lparr>time_decay := t\<rparr>\<rparr>) m
               = final_score RiskScorer m
           \<and> 0 \<le> vol_norm m \<and> vol_norm m \<le> 1
           \<and> 0 \<le> liquidity_norm m \<and> liquidity_norm m \<le> 1
           \<and> 0 \<le> concentration_norm m \<and> concentration_norm m \<le> 1"
proof -
  have w: "volume_volatility (risk_weights RiskScorer) + liquidity_depth (risk_weights RiskScorer)
             + concentration_risk (risk_weights RiskScorer) = 9 / 10"
    by (simp add: RiskScorer_def)
  have w4: "volume_volatility (risk_weights RiskScorer) + liquidity_depth (risk_weights RiskScorer)
             + concentration_risk (risk_weights RiskScorer) + time_decay (risk_weights RiskScorer) = 1"
    by (simp add: RiskScorer_def)
  have t: "final_score (RiskScorer\<lparr>risk_weights := (risk_weights RiskScorer)\<lparr>time_decay := t\<rparr>\<rparr>) m
             = final_score RiskScorer m"
    by (simp add: final_score_eq)
  show ?thesis
    using vol_norm_range [OF assms(1)] liquidity_norm_range [OF assms(2)]
      concentration_norm_range [OF assms(3)] w w4 t
    by (simp add: compute_risk_score_Metrics final_score_eq [of RiskScorer m])
qed

theorem C1_score_is_weighted_sum_witness:
  "0 \<le> volume_cv extreme_metrics \<and> 0 \<le> volume_per_minute extreme_metrics
   \<and> 0 \<le> swap_count extreme_metrics
   \<and> (\<exists>r. compute_risk_score RiskScorer ''2026-01-01T00:00:00'' (Metrics extreme_metrics)
             = Assessment r
           \<and> risk_score r = 35
           \<and> final_score RiskScorer extreme_metrics = 35
           \<and> vol_norm extreme_metrics = 1
           \<and> liquidity_norm extreme_metrics = 0
           \<and> concentration_norm extreme_metrics = 0)"
proof -
  have h: "0 \<le> volume_cv extreme_metrics" "0 \<le> volume_per_minute extreme_metrics"
    "0 \<le> swap_count extreme_metrics"
    by (simp_all add: extreme_metrics_def)
  have n: "vol_norm extreme_metrics = 1" "liquidity_norm extreme_metrics = 0"
    "concentration_norm extreme_metrics = 0"
    by (simp_all add: extreme_metrics_def vol_norm_def liquidity_norm_def concentration_norm_def)
  have r: "py_round 35 2 = 35"
    by (simp add: py_round_def Let_def)
  from C1_score_is_weighted_sum [OF h, of "''2026-01-01T00:00:00''" 0]
  obtain r where "compute_risk_score RiskScorer ''2026-01-01T00:00:00'' (Metrics extreme_metrics)
                    = Assessment r"
    and "risk_score r = py_round (final_score RiskScorer extreme_metrics) 2"
    by blast
  moreover have "final_score RiskScorer extreme_metrics = 35"
    by (simp add: final_score_RiskScorer n)
  ultimately show ?thesis using h n r by simp
qed

subsection \<open>The maximum score\<close>



subsection \<open>Categories\<close>

text \<open>
  Claim C3: for every metrics value the assessment carries exactly one of the three
  levels, decided by the unrounded score: LOW exactly when the score is below 30, MEDIUM
  exactly when it is at least 30 and below 70, HIGH exactly when it is at least 70.
\<close>

theorem C3_category_partition:
  "\<exists>r. compute_risk_score self now (Metrics m) = Assessment r
       \<and> (risk_level r = ''LOW'') = (final_score self m < 30)
       \<and> (risk_level r = ''MEDIUM'') = (30 \<le> final_score self m \<and> final_score self m < 70)
       \<and> (risk_level r = ''HIGH'') = (70 \<le> final_score self m)
       \<and> (risk_level r = ''LOW'' \<or> risk_level r = ''MEDIUM'' \<or> risk_level r = ''HIGH'')"
proof -
  have "fst (categorize s) = ''LOW'' \<or> fst (categorize s) = ''MEDIUM''
        \<or> fst (categorize s) = ''HIGH''" for s
    by (simp add: categorize_def)
  then show ?thesis
    by (simp add: compute_risk_score_Metrics categorize_level)
qed

subsection \<open>Normalized sub-scores\<close>

text \<open>
  Claim C4: for every metrics value with non-negative \<^verbatim>\<open>volume_cv\<close>,
  \<^verbatim>\<open>volume_per_minute\<close> and \<^verbatim>\<open>swap_count\<close>, each of the three normalized sub-scores
  computed by \<^verbatim>\<open>compute_risk_score\<close> lies in [0,1], however large the metrics are; so
  does each of the rounded values the assessment reports.
\<close>

theorem C4_normalized_in_unit_interval:
  assumes "0 \<le> volume_cv m" and "0 \<le> volume_per_minute m" and "0 \<le> swap_count m"
  shows "\<exists>r. compute_risk_score RiskScorer now (Metrics m) = Assessment r
           \<and> 0 \<le> volatility (normalized m) \<and> volatility (normalized m) \<le> 1
           \<and> 0 \<le> liquidity (normalized m) \<and> liquidity (normalized m) \<le> 1
           \<and> 0 \<le> concentration (normalized m) \<and> concentration (normalized m) \<le> 1
           \<and> 0 \<le> volatility (normalized_metrics r) \<and> volatility (normalized_metrics r) \<le> 1
           \<and> 0 \<le> liquidity (normalized_metrics r) \<and> liquidity (normalized_metrics r) \<le> 1
           \<and> 0 \<le> concentration (normalized_metrics r)
           \<and> concentration (normalized_metrics r) \<le> 1"
proof -
  note v = vol_norm_range [OF assms(1)]
  note l = liquidity_norm_range [OF assms(2)]
  note c = concentration_norm_range [OF assms(3)]
  have "0 \<le> py_round (vol_norm m) 3 \<and> py_round (vol_norm m) 3 \<le> 1"
    using v by (simp add: py_round_unit)
  moreover have "0 \<le> py_round (liquidity_norm m) 3 \<and> py_round (liquidity_norm m) 3 \<le> 1"
    using l by (simp add: py_round_unit)
  moreover have "0 \<le> py_round (concentration_norm m) 3
                 \<and> py_round (concentration_norm m) 3 \<le> 1"
    using c by (simp add: py_round_unit)
  ultimately show ?thesis
    using v l c by (simp add: compute_risk_score_Metrics normalized_def)
qed

theorem C4_normalized_in_unit_interval_witness:
  "volume_cv extreme_metrics = 1000
   \<and> 0 \<le> volume_cv extreme_metrics \<and> 0 \<le> volume_per_minute extreme_metrics
   \<and> 0 \<le> swap_count extreme_metrics
   \<and> 0 \<le> volatility (normalized extreme_metrics) \<and> volatility (normalized extreme_metrics) \<le> 1
   \<and> 0 \<le> liquidity (normalized extreme_metrics) \<and> liquidity (normalized extreme_metrics) \<le> 1
   \<and> 0 \<le> concentration (normalized extreme_metrics)
   \<and> concentration (normalized extreme_metrics) \<le> 1"
proof -
  have h: "0 \<le> volume_cv extreme_metrics" "0 \<le> volume_per_minute extreme_metrics"
    "0 \<le> swap_count extreme_metrics"
    by (simp_all add: extreme_metrics_def)
  have "volume_cv extreme_metrics = 1000"
    by (simp add: extreme_metrics_def)
  with h C4_normalized_in_unit_interval [OF h, of "''2026-01-01T00:00:00''"]
  show ?thesis by blast
qed

subsection \<open>Insufficient data\<close>

text \<open>
  Claim C5: when the swap data is absent, has no \<^verbatim>\<open>processed_events\<close> sequence, or
  that sequence has fewer than 2 records, \<^verbatim>\<open>calculate_basic_metrics\<close> returns
  \<^verbatim>\<open>None\<close>, never a metrics value.
\<close>

theorem C5_insufficient_data_returns_None:
  assumes "swap_data = None
           \<or> (\<exists>d. swap_data = Some d \<and> map_of d ''processed_events'' = None)
           \<or> (\<exists>d swaps. swap_data = Some d \<and> map_of d ''processed_events'' = Some swaps
                 \<and> length swaps < 2)"
  shows "calculate_basic_metrics swap_data = Inr None"
  using assms by (auto simp: calculate_basic_metrics_def)

theorem C5_insufficient_data_returns_None_witness:
  "map_of [(''processed_events'', [\<lparr>eth_amount = 5\<rparr>])] ''processed_events''
     = Some [\<lparr>eth_amount = 5\<rparr>]
   \<and> length [\<lparr>eth_amount = 5 :: real\<rparr>] < 2
   \<and> calculate_basic_metrics (Some [(''processed_events'', [\<lparr>eth_amount = 5\<rparr>])]) = Inr None
   \<and> calculate_basic_metrics (Some [(''processed_events'', [])]) = Inr None
   \<and> calculate_basic_metrics (Some [(''metadata'', [])]) = Inr None
   \<and> calculate_basic_metrics (Some []) = Inr None
   \<and> calculate_basic_metrics None = Inr None"
proof -
  have "calculate_basic_metrics (Some [(''processed_events'', [\<lparr>eth_amount = 5\<rparr>])]) = Inr None"
    by (rule C5_insufficient_data_returns_None) simp
  moreover have "calculate_basic_metrics (Some [(''processed_events'', [])]) = Inr None"
    by (rule C5_insufficient_data_returns_None) simp
  moreover have "calculate_basic_metrics (Some [(''metadata'', [])]) = Inr None"
    by (rule C5_insufficient_data_returns_None) simp
  moreover have "calculate_basic_metrics (Some []) = Inr None"
    by (rule C5_insufficient_data_returns_None) simp
  moreover have "calculate_basic_metrics None = Inr None"
    by (rule C5_insufficient_data_returns_None) simp
  ultimately show ?thesis by simp
qed

subsection \<open>Missing metrics\<close>

text \<open>
  Claim C6: given \<^verbatim>\<open>None\<close> or the empty dictionary, \<^verbatim>\<open>compute_risk_score\<close> returns the
  value \<^verbatim>\<open>{"error": "No metrics available"}\<close>; given a metrics value it returns an
  assessment. It has no other outcome: no input makes it raise.
\<close>

theorem C6_missing_metrics_error:
  "(falsy arg \<longrightarrow> compute_risk_score self now arg = Error ''No metrics available'')
   \<and> (\<not> falsy arg \<longrightarrow> (\<exists>r. compute_risk_score self now arg = Assessment r))"
  by (cases arg) (simp_all add: compute_risk_score_Metrics, simp_all add: compute_risk_score_def)

theorem C6_missing_metrics_error_witness:
  "falsy NoneMetrics \<and> falsy EmptyMetrics \<and> \<not> falsy (Metrics saturated_metrics)
   \<and> compute_risk_score RiskScorer ''2026-01-01T00:00:00'' NoneMetrics
       = Error ''No metrics available''
   \<and> compute_risk_score RiskScorer ''2026-01-01T00:00:00'' EmptyMetrics
       = Error ''No metrics available''
   \<and> (\<exists>r. compute_risk_score RiskScorer ''2026-01-01T00:00:00'' (Metrics saturated_metrics)
             = Assessment r)"
  using C6_missing_metrics_error [of NoneMetrics RiskScorer "''2026-01-01T00:00:00''"]
    C6_missing_metrics_error [of EmptyMetrics RiskScorer "''2026-01-01T00:00:00''"]
    C6_missing_metrics_error [of "Metrics saturated_metrics" RiskScorer "''2026-01-01T00:00:00''"]
  by simp

subsection \<open>Volume statistics\<close>

text \<open>
  Claim C7: for every sequence of at least 2 swap records with non-negative amounts,
  \<^verbatim>\<open>calculate_basic_metrics\<close> returns a metrics value whose \<^verbatim>\<open>total_volume_eth\<close> is the
  sum of the amounts, whose \<^verbatim>\<open>avg_volume_eth\<close> is that total divided by the number of
  records, and whose \<^verbatim>\<open>volume_std_eth\<close> is the population standard deviation of the
  amounts and is not negative.
\<close>

theorem C7_volume_statistics:
  assumes "map_of d ''processed_events'' = Some swaps"
    and "2 \<le> length swaps"
    and "\<forall>s \<in> set swaps. 0 \<le> eth_amount s"
  shows "\<exists>m. calculate_basic_metrics (Some d) = Inr (Some m)
           \<and> total_volume_eth m = sum_list (map eth_amount swaps)
           \<and> avg_volume_eth m = total_volume_eth m / real (length swaps)
           \<and> swap_count m = int (length swaps)
           \<and> volume_std_eth m = spec_population_std (map eth_amount swaps)
           \<and> 0 \<le> volume_std_eth m"
  using np_std_nonneg [of "map eth_amount swaps"]
  by (simp add: calculate_basic_metrics_Some [OF assms(1,2)] np_std_population [symmetric])
    (simp add: np_mean_def)

theorem C7_volume_statistics_witness:
  "map_of [(''processed_events'', [\<lparr>eth_amount = 1\<rparr>, \<lparr>eth_amount = 3\<rparr>])] ''processed_events''
     = Some [\<lparr>eth_amount = 1\<rparr>, \<lparr>eth_amount = 3\<rparr>]
   \<and> 2 \<le> length [\<lparr>eth_amount = 1 :: real\<rparr>, \<lparr>eth_amount = 3\<rparr>]
   \<and> 0 \<le> eth_amount \<lparr>eth_amount = 1 :: real\<rparr> \<and> 0 \<le> eth_amount \<lparr>eth_amount = 3 :: real\<rparr>
   \<and> (\<exists>m. calculate_basic_metrics
              (Some [(''processed_events'', [\<lparr>eth_amount = 1\<rparr>, \<lparr>eth_amount = 3\<rparr>])])
             = Inr (Some m)
           \<and> total_volume_eth m = 4
           \<and> avg_volume_eth m = 2
           \<and> volume_std_eth m = 1)"
proof -
  have h: "map_of [(''processed_events'', [\<lparr>eth_amount = 1 :: real\<rparr>, \<lparr>eth_amount = 3\<rparr>])]
             ''processed_events'' = Some [\<lparr>eth_amount = 1\<rparr>, \<lparr>eth_amount = 3\<rparr>]"
    "2 \<le> length [\<lparr>eth_amount = 1 :: real\<rparr>, \<lparr>eth_amount = 3\<rparr>]"
    "\<forall>s \<in> set [\<lparr>eth_amount = 1 :: real\<rparr>, \<lparr>eth_amount = 3\<rparr>]. 0 \<le> eth_amount s"
    by simp_all
  have p: "spec_population_std [1, 3] = 1"
    by (simp add: spec_population_std_def power2_eq_square)
  from C7_volume_statistics [OF h] obtain m where
    "calculate_basic_metrics
       (Some [(''processed_events'', [\<lparr>eth_amount = 1\<rparr>, \<lparr>eth_amount = 3\<rparr>])]) = Inr (Some m)"
    and "total_volume_eth m = 4"
    and "avg_volume_eth m = total_volume_eth m / 2"
    and "volume_std_eth m = spec_population_std [1, 3]"
    by auto
  with p h show ?thesis
    by simp
qed

subsection \<open>The worked example\<close>

text \<open>
  Claim C8: for three swap records of 10 ETH each (the window being the built-in 5
  minutes) the metrics have mean 10, standard deviation 0, coefficient of variation 0 and
  6 ETH per minute; the normalized sub-scores are 0, 0.94 and 0.7; the score is 45.7 and
  the level is MEDIUM.
\<close>

theorem C8_worked_example:
  "calculate_basic_metrics (example_swaps [10, 10, 10]) =
     Inr (Some \<lparr>total_volume_eth = 30, avg_volume_eth = 10, volume_std_eth = 0,
                volume_cv = 0, swap_count = 3, time_range_minutes = 5,
                volume_per_minute = 6\<rparr>)
   \<and> compute_risk_score RiskScorer now
        (Metrics \<lparr>total_volume_eth = 30, avg_volume_eth = 10, volume_std_eth = 0,
                  volume_cv = 0, swap_count = 3, time_range_minutes = 5,
                  volume_per_minute = 6\<rparr>) =
       Assessment
         \<lparr>risk_score = 457 / 10, risk_level = ''MEDIUM'', color = Yellow, timestamp = now,
          components =
            \<lparr>volatility_contrib = 0, liquidity_contrib = 282 / 10,
             concentration_contrib = 175 / 10\<rparr>,
          normalized_metrics =
            \<lparr>volatility = 0, liquidity = 94 / 100, concentration = 7 / 10\<rparr>\<rparr>
   \<and> normalized \<lparr>total_volume_eth = 30, avg_volume_eth = 10, volume_std_eth = 0,
                  volume_cv = 0, swap_count = 3, time_range_minutes = 5,
                  volume_per_minute = 6\<rparr> =
       \<lparr>volatility = 0, liquidity = 94 / 100, concentration = 7 / 10\<rparr>
   \<and> final_score RiskScorer
        \<lparr>total_volume_eth = 30, avg_volume_eth = 10, volume_std_eth = 0,
         volume_cv = 0, swap_count = 3, time_range_minutes = 5,
         volume_per_minute = 6\<rparr> = 457 / 10"
proof -
  define m :: metrics where
    "m = \<lparr>total_volume_eth = 30, avg_volume_eth = 10, volume_std_eth = 0,
          volume_cv = 0, swap_count = 3, time_range_minutes = 5, volume_per_minute = 6\<rparr>"
  have c: "calculate_basic_metrics (example_swaps [10, 10, 10]) = Inr (Some m)"
    by (simp add: calculate_example_swaps np_examples m_def)
  have n: "vol_norm m = 0" "liquidity_norm m = 94 / 100" "concentration_norm m = 7 / 10"
    by (simp_all add: vol_norm_def liquidity_norm_def concentration_norm_def m_def)
  have f: "final_score RiskScorer m = 457 / 10"
    by (simp add: final_score_RiskScorer n)
  have l: "categorize (final_score RiskScorer m) = (''MEDIUM'', Yellow)"
    by (simp add: f categorize_def)
  have w: "volume_volatility (risk_weights RiskScorer) = 35 / 100"
    "liquidity_depth (risk_weights RiskScorer) = 30 / 100"
    "concentration_risk (risk_weights RiskScorer) = 25 / 100"
    by (simp_all add: RiskScorer_def)
  have r: "py_round (final_score RiskScorer m) 2 = 457 / 10"
    "py_round (vol_norm m * volume_volatility (risk_weights RiskScorer) * 100) 2 = 0"
    "py_round (liquidity_norm m * liquidity_depth (risk_weights RiskScorer) * 100) 2 = 282 / 10"
    "py_round (concentration_norm m * concentration_risk (risk_weights RiskScorer) * 100) 2
       = 175 / 10"
    "py_round (vol_norm m) 3 = 0"
    "py_round (liquidity_norm m) 3 = 94 / 100"
    "py_round (concentration_norm m) 3 = 7 / 10"
    by (simp_all add: f n w py_round_def Let_def)
  have s: "compute_risk_score RiskScorer now (Metrics m) =
       Assessment
         \<lparr>risk_score = 457 / 10, risk_level = ''MEDIUM'', color = Yellow, timestamp = now,
          components =
            \<lparr>volatility_contrib = 0, liquidity_contrib = 282 / 10,
             concentration_contrib = 175 / 10\<rparr>,
          normalized_metrics =
            \<lparr>volatility = 0, liquidity = 94 / 100, concentration = 7 / 10\<rparr>\<rparr>"
    unfolding compute_risk_score_Metrics r l by simp
  have "normalized m = \<lparr>volatility = 0, liquidity = 94 / 100, concentration = 7 / 10\<rparr>"
    by (simp add: normalized_def n)
  with c s f show ?thesis
    unfolding m_def by simp
qed

subsection \<open>The guarded division\<close>

text \<open>
  Claim C9: \<^verbatim>\<open>calculate_basic_metrics\<close> never divides by zero, whatever its input, and
  in every metrics value it returns \<^verbatim>\<open>volume_cv\<close> is the standard deviation divided by
  the mean when the mean is positive, and 0 otherwise.
\<close>

theorem C9_cv_guarded:
  "calculate_basic_metrics swap_data \<noteq> Inl ZeroDivisionError
   \<and> (\<forall>m. calculate_basic_metrics swap_data = Inr (Some m) \<longrightarrow>
          volume_cv m = (if 0 < avg_volume_eth m then volume_std_eth m / avg_volume_eth m
                         else 0))"
proof -
  consider "calculate_basic_metrics swap_data = Inr None"
    | d swaps where "swap_data = Some d" "map_of d ''processed_events'' = Some swaps"
        "2 \<le> length swaps"
    using calculate_basic_metrics_cases [of swap_data] by blast
  then show ?thesis
  proof cases
    case 1
    then show ?thesis by simp
  next
    case 2
    show ?thesis
      unfolding 2(1) calculate_basic_metrics_Some [OF 2(2,3)] by simp
  qed
qed

theorem C9_cv_guarded_witness:
  "calculate_basic_metrics (example_swaps [1, 3]) =
     Inr (Some \<lparr>total_volume_eth = 4, avg_volume_eth = 2, volume_std_eth = 1,
                volume_cv = 1 / 2, swap_count = 2, time_range_minutes = 5,
                volume_per_minute = 4 / 5\<rparr>)
   \<and> calculate_basic_metrics (example_swaps [0, 0]) =
     Inr (Some \<lparr>total_volume_eth = 0, avg_volume_eth = 0, volume_std_eth = 0,
                volume_cv = 0, swap_count = 2, time_range_minutes = 5,
                volume_per_minute = 0\<rparr>)
   \<and> (1 / 2 :: real) = (if 0 < (2 :: real) then 1 / 2 else 0)"
proof -
  have a: "calculate_basic_metrics (example_swaps [1, 3]) =
     Inr (Some \<lparr>total_volume_eth = 4, avg_volume_eth = 2, volume_std_eth = 1,
                volume_cv = 1 / 2, swap_count = 2, time_range_minutes = 5,
                volume_per_minute = 4 / 5\<rparr>)"
    by (simp add: calculate_example_swaps np_examples)
  have b: "calculate_basic_metrics (example_swaps [0, 0]) =
     Inr (Some \<lparr>total_volume_eth = 0, avg_volume_eth = 0, volume_std_eth = 0,
                volume_cv = 0, swap_count = 2, time_range_minutes = 5,
                volume_per_minute = 0\<rparr>)"
    by (simp add: calculate_example_swaps np_mean_def np_std_def)
  from C9_cv_guarded [of "example_swaps [1, 3]"] a
  have "(1 / 2 :: real) = (if 0 < (2 :: real) then 1 / 2 else 0)"
    by simp
  with a b show ?thesis by simp
qed

subsection \<open>Rounded score and unrounded level\<close>

text \<open>
  Claim C10: in every assessment the reported \<^verbatim>\<open>risk_score\<close> is the score rounded to 2
  decimals while \<^verbatim>\<open>risk_level\<close> is decided by the unrounded score. So ten swaps of
  0.005 ETH give a score below 30 that is reported as 30.0 with level LOW, and four empty
  swaps with four of 0.0125 ETH give a score below 70 that is reported as 70.0 with level
  MEDIUM.
\<close>

theorem C10_rounded_score_unrounded_level:
  "(\<forall>m. \<exists>r. compute_risk_score self now (Metrics m) = Assessment r
          \<and> risk_score r = py_round (final_score self m) 2
          \<and> risk_level r = fst (categorize (final_score self m)))
   \<and> (\<exists>m r. calculate_basic_metrics (example_swaps low_edge_amounts) = Inr (Some m)
          \<and> compute_risk_score RiskScorer now (Metrics m) = Assessment r
          \<and> final_score RiskScorer m = 29997 / 1000
          \<and> risk_score r = 30 \<and> risk_level r = ''LOW'')
   \<and> (\<exists>m r. calculate_basic_metrics (example_swaps medium_edge_amounts) = Inr (Some m)
          \<and> compute_risk_score RiskScorer now (Metrics m) = Assessment r
          \<and> final_score RiskScorer m = 69997 / 1000
          \<and> risk_score r = 70 \<and> risk_level r = ''MEDIUM'')"
proof (intro conjI allI)
  fix m
  show "\<exists>r. compute_risk_score self now (Metrics m) = Assessment r
          \<and> risk_score r = py_round (final_score self m) 2
          \<and> risk_level r = fst (categorize (final_score self m))"
    by (simp add: compute_risk_score_Metrics)
next
  define m :: metrics where
    "m = \<lparr>total_volume_eth = 1 / 20, avg_volume_eth = 1 / 200, volume_std_eth = 0,
          volume_cv = 0, swap_count = 10, time_range_minutes = 5,
          volume_per_minute = 1 / 100\<rparr>"
  have l: "length low_edge_amounts = 10" "sum_list low_edge_amounts = 1 / 20"
    by (simp_all add: low_edge_amounts_def)
  have c: "calculate_basic_metrics (example_swaps low_edge_amounts) = Inr (Some m)"
    by (simp add: calculate_example_swaps l np_examples m_def)
  have n: "vol_norm m = 0" "liquidity_norm m = 9999 / 10000" "concentration_norm m = 0"
    by (simp_all add: vol_norm_def liquidity_norm_def concentration_norm_def m_def)
  have f: "final_score RiskScorer m = 29997 / 1000"
    by (simp add: final_score_RiskScorer n)
  have "fst (categorize (29997 / 1000)) = ''LOW''"
    by (simp add: categorize_def)
  then have "\<exists>r. compute_risk_score RiskScorer now (Metrics m) = Assessment r
      \<and> risk_score r = 30 \<and> risk_level r = ''LOW''"
    by (simp add: compute_risk_score_Metrics f py_round_values)
  with c f show "\<exists>m r. calculate_basic_metrics (example_swaps low_edge_amounts) = Inr (Some m)
          \<and> compute_risk_score RiskScorer now (Metrics m) = Assessment r
          \<and> final_score RiskScorer m = 29997 / 1000
          \<and> risk_score r = 30 \<and> risk_level r = ''LOW''"
    by blast
next
  define m :: metrics where
    "m = \<lparr>total_volume_eth = 1 / 20, avg_volume_eth = 1 / 160, volume_std_eth = 1 / 160,
          volume_cv = 1, swap_count = 8, time_range_minutes = 5,
          volume_per_minute = 1 / 100\<rparr>"
  have l: "length medium_edge_amounts = 8" "sum_list medium_edge_amounts = 1 / 20"
    by (simp_all add: medium_edge_amounts_def)
  have c: "calculate_basic_metrics (example_swaps medium_edge_amounts) = Inr (Some m)"
    by (simp add: calculate_example_swaps l np_examples m_def)
  have n: "vol_norm m = 1" "liquidity_norm m = 9999 / 10000" "concentration_norm m = 2 / 10"
    by (simp_all add: vol_norm_def liquidity_norm_def concentration_norm_def m_def)
  have f: "final_score RiskScorer m = 69997 / 1000"
    by (simp add: final_score_RiskScorer n)
  have "fst (categorize (69997 / 1000)) = ''MEDIUM''"
    by (simp add: categorize_def)
  then have "\<exists>r. compute_risk_score RiskScorer now (Metrics m) = Assessment r
      \<and> risk_score r = 70 \<and> risk_level r = ''MEDIUM''"
    by (simp add: compute_risk_score_Metrics f py_round_values)
  with c f show "\<exists>m r. calculate_basic_metrics (example_swaps medium_edge_amounts) = Inr (Some m)
          \<and> compute_risk_score RiskScorer now (Metrics m) = Assessment r
          \<and> final_score RiskScorer m = 69997 / 1000
          \<and> risk_score r = 70 \<and> risk_level r = ''MEDIUM''"
    by blast
qed

end
